theory Spec2Isabelle
  imports Main "HOL-Library.Sublist"
begin

section \<open>Go values\<close>

text \<open>
  A Go \<open>error\<close> value is identified with the message \<open>err.Error()\<close> returns. A panic is
  either the runtime's nil-pointer dereference or an explicit \<open>panic(msg)\<close>.
\<close>

datatype error = Error string

fun Error_msg :: "error \<Rightarrow> string" where
  "Error_msg (Error m) = m"

datatype panic = NilDereference | PanicMsg string

text \<open>
  A slice is either \<open>nil\<close> (\<open>None\<close>) or holds its elements. \<open>var names []string\<close>
  starts as \<open>nil\<close>, and \<open>append\<close> on a \<open>nil\<close> slice allocates.
\<close>

type_synonym 'a slice = "'a list option"

definition append_slice :: "'a slice \<Rightarrow> 'a \<Rightarrow> 'a slice" where
  "append_slice s x = (case s of None \<Rightarrow> Some [x] | Some xs \<Rightarrow> Some (xs @ [x]))"

definition elems :: "'a slice \<Rightarrow> 'a list" where
  "elems s = (case s of None \<Rightarrow> [] | Some xs \<Rightarrow> xs)"

text \<open>The two dynamic types the handlers store in the \<open>Data any\<close> field.\<close>

datatype any = AnyStrings "string slice" | AnyString string

record Config =
  VERSION :: string

record response =
  Version :: string
  Data :: any

section \<open>JSON encoding of the envelope\<close>

text \<open>
  \<open>c.JSON\<close> marshals with \<open>encoding/json\<close>: a struct becomes an object with the tagged
  field names in declaration order, a string a JSON string, a non-nil slice an array, and
  a nil slice \<open>null\<close>. The body is kept as a JSON document, not as bytes: \<open>JString s\<close> is
  the JSON string whose value has the UTF-8 encoding \<open>s\<close>.
\<close>

datatype json = JNull | JString string | JArray "json list" | JObject "(string \<times> json) list"

text \<open>
  A Go string is any sequence of bytes, and the encoder walks it rune by rune with
  \<open>utf8.DecodeRuneInString\<close>. Of that function only the size matters here:
  \<open>Some n\<close> when the bytes at the head are a well-formed encoding of \<open>n\<close> bytes, \<open>None\<close>
  where Go returns \<open>(RuneError, 1)\<close>. \<open>first_size\<close> is the length the first byte announces
  (0 when it cannot start an encoding) and \<open>acceptRange\<close> the range allowed for the
  second byte, as in the tables of \<open>unicode/utf8\<close>.
\<close>

definition first_size :: "nat \<Rightarrow> nat" where
  "first_size b0 =
     (if b0 < 0x80 then 1
      else if b0 < 0xC2 then 0
      else if b0 < 0xE0 then 2
      else if b0 < 0xF0 then 3
      else if b0 < 0xF5 then 4
      else 0)"

definition acceptRange :: "nat \<Rightarrow> nat \<times> nat" where
  "acceptRange b0 =
     (if b0 = 0xE0 then (0xA0, 0xBF)
      else if b0 = 0xED then (0x80, 0x9F)
      else if b0 = 0xF0 then (0x90, 0xBF)
      else if b0 = 0xF4 then (0x80, 0x8F)
      else (0x80, 0xBF))"

definition continuation :: "nat \<Rightarrow> bool" where
  "continuation b = (0x80 \<le> b \<and> b \<le> 0xBF)"

definition DecodeRuneInString :: "string \<Rightarrow> nat option" where
  "DecodeRuneInString s =
     (case map of_char s of
        [] \<Rightarrow> None
      | s0 # rest \<Rightarrow>
          if first_size s0 = 0 then None
          else if first_size s0 = 1 then Some 1
          else if length (s0 # rest) < first_size s0 then None
          else if rest ! 0 < fst (acceptRange s0) \<or> snd (acceptRange s0) < rest ! 0 then None
          else if first_size s0 \<le> 2 then Some 2
          else if \<not> continuation (rest ! 1) then None
          else if first_size s0 \<le> 3 then Some 3
          else if \<not> continuation (rest ! 2) then None
          else Some 4)"

text \<open>The UTF-8 encoding of U+FFFD, the replacement character.\<close>

definition RuneError :: string where
  "RuneError = [CHR 0xEF, CHR 0xBF, CHR 0xBD]"

text \<open>
  The value of the JSON string the encoder writes for a Go string: well-formed runes are
  kept (the escapes it writes for some of them denote the same characters), and every
  byte at which decoding fails is replaced by U+FFFD, one byte at a time.
  \<open>ValidString\<close> is \<open>utf8.ValidString\<close>: decoding never fails.
\<close>

function json_text :: "string \<Rightarrow> string" where
  "json_text [] = []"
| "json_text (c # cs) =
     (case DecodeRuneInString (c # cs) of
        None \<Rightarrow> RuneError @ json_text cs
      | Some n \<Rightarrow> take n (c # cs) @ json_text (drop n (c # cs)))"
  by pat_completeness auto
termination
  by (relation "measure length")
    (auto simp add: DecodeRuneInString_def first_size_def split: if_splits)

function ValidString :: "string \<Rightarrow> bool" where
  "ValidString [] = True"
| "ValidString (c # cs) =
     (case DecodeRuneInString (c # cs) of
        None \<Rightarrow> False
      | Some n \<Rightarrow> ValidString (drop n (c # cs)))"
  by pat_completeness auto
termination
  by (relation "measure length")
    (auto simp add: DecodeRuneInString_def first_size_def split: if_splits)

fun marshal_any :: "any \<Rightarrow> json" where
  "marshal_any (AnyStrings None) = JNull"
| "marshal_any (AnyStrings (Some xs)) = JArray (map (\<lambda>x. JString (json_text x)) xs)"
| "marshal_any (AnyString s) = JString (json_text s)"

definition marshal :: "response \<Rightarrow> json" where
  "marshal r =
     JObject [(''version'', JString (json_text (Version r))), (''data'', marshal_any (Data r))]"

section \<open>The SDK's types\<close>

text \<open>
  Only the fields the handlers read are modelled. Each is a pointer in the SDK
  (\<open>*string\<close>, \<open>*types.Parameter\<close>), so \<open>None\<close> is the nil pointer.
\<close>

record types_Bucket =
  Bucket_Name :: "string option"

record s3_ListBucketsOutput =
  Buckets :: "types_Bucket list"

record types_ParameterMetadata =
  ParameterMetadata_Name :: "string option"

record ssm_DescribeParametersOutput =
  Parameters :: "types_ParameterMetadata list"

record types_Parameter =
  Parameter_Value :: "string option"

record ssm_GetParameterOutput =
  Parameter :: "types_Parameter option"

record ssm_GetParameterInput =
  Input_Name :: "string option"

record sts_GetCallerIdentityOutput =
  Arn :: "string option"

text \<open>The resolved SDK configuration is opaque; a client is built from it.\<close>

datatype aws_Config = aws_Config string

datatype sts_Client = sts_NewFromConfig aws_Config

datatype s3_Client = s3_NewFromConfig aws_Config

datatype ssm_Client = ssm_NewFromConfig aws_Config

record awsClients =
  s3 :: s3_Client
  ssm :: ssm_Client

section \<open>The world outside the process\<close>

text \<open>
  Everything the program reads from outside: the process environment, what the SDK's
  configuration loader returns, what each remote operation answers to a given client, and
  whether the listener can be started. An SDK operation returns a non-nil output exactly
  when its error is nil, hence the sum type. \<open>gin_Run\<close> is \<open>None\<close> when \<open>r.Run\<close> keeps
  serving and never returns.
\<close>

record world =
  environ :: "string \<rightharpoonup> string"
  config_LoadDefaultConfig :: "error + aws_Config"
  sts_GetCallerIdentity :: "sts_Client \<Rightarrow> error + sts_GetCallerIdentityOutput"
  s3_ListBuckets :: "s3_Client \<Rightarrow> error + s3_ListBucketsOutput"
  ssm_DescribeParameters :: "ssm_Client \<Rightarrow> error + ssm_DescribeParametersOutput"
  ssm_GetParameter :: "ssm_Client \<Rightarrow> ssm_GetParameterInput \<Rightarrow> error + ssm_GetParameterOutput"
  gin_Run :: "string \<Rightarrow> error option"

text \<open>What the process does that is visible from outside, in the order it does it.\<close>

datatype event =
    EvEnvconfigProcess
  | EvLoadDefaultConfig
  | EvGetCallerIdentity
  | EvListBuckets
  | EvDescribeParameters
  | EvGetParameter "string option"
  | EvLogPrintf string
  | EvRun string

fun network :: "event \<Rightarrow> bool" where
  "network EvEnvconfigProcess = False"
| "network (EvLogPrintf m) = False"
| "network e = True"

section \<open>The request context\<close>

text \<open>
  Of \<open>gin.Context\<close>: the path parameters, and the response writer's status and body
  (\<open>None\<close> while nothing has been written). The engine hands each request a context whose
  status is 200 and whose body is empty.
\<close>

record gin_Context =
  Params :: "(string \<times> string) list"
  status :: nat
  body :: "json option"

definition new_Context :: "(string \<times> string) list \<Rightarrow> gin_Context" where
  "new_Context ps = \<lparr>Params = ps, status = 200, body = None\<rparr>"

definition Param :: "gin_Context \<Rightarrow> string \<Rightarrow> string" where
  "Param c key = (case map_of (Params c) key of None \<Rightarrow> [] | Some v \<Rightarrow> v)"

definition Status :: "gin_Context \<Rightarrow> nat \<Rightarrow> gin_Context" where
  "Status c code = c\<lparr>status := code\<rparr>"

definition JSON :: "gin_Context \<Rightarrow> nat \<Rightarrow> response \<Rightarrow> gin_Context" where
  "JSON c code obj = c\<lparr>status := code, body := Some (marshal obj)\<rparr>"

definition StatusOK :: nat where
  "StatusOK = 200"

definition StatusNotFound :: nat where
  "StatusNotFound = 404"

definition StatusInternalServerError :: nat where
  "StatusInternalServerError = 500"

text \<open>
  A handler runs against the world as it is during the request and returns the remote
  calls it made together with either the panic that ended it or the written context.
\<close>

type_synonym gin_HandlerFunc = "world \<Rightarrow> gin_Context \<Rightarrow> event list \<times> (panic + gin_Context)"

section \<open>The program\<close>

definition envconfig_Process :: "world \<Rightarrow> error + Config" where
  "envconfig_Process w =
     (case environ w ''VERSION'' of
        None \<Rightarrow> Inl (Error ''required key VERSION missing value'')
      | Some v \<Rightarrow> Inr \<lparr>VERSION = v\<rparr>)"

definition newAWSClients :: "world \<Rightarrow> event list \<times> (error + awsClients)" where
  "newAWSClients w =
     (case config_LoadDefaultConfig w of
        Inl err \<Rightarrow> ([EvLoadDefaultConfig], Inl err)
      | Inr cfg \<Rightarrow>
          (let stsClient = sts_NewFromConfig cfg in
           case sts_GetCallerIdentity w stsClient of
             Inl err \<Rightarrow> ([EvLoadDefaultConfig, EvGetCallerIdentity], Inl err)
           | Inr _ \<Rightarrow>
               ([EvLoadDefaultConfig, EvGetCallerIdentity],
                Inr \<lparr>s3 = s3_NewFromConfig cfg, ssm = ssm_NewFromConfig cfg\<rparr>)))"

text \<open>The two \<open>range\<close> loops: each iteration dereferences the item's \<open>Name\<close>.\<close>

fun range_Buckets :: "types_Bucket list \<Rightarrow> string slice \<Rightarrow> panic + string slice" where
  "range_Buckets [] names = Inr names"
| "range_Buckets (b # bs) names =
     (case Bucket_Name b of
        None \<Rightarrow> Inl NilDereference
      | Some n \<Rightarrow> range_Buckets bs (append_slice names n))"

fun range_Parameters :: "types_ParameterMetadata list \<Rightarrow> string slice \<Rightarrow> panic + string slice" where
  "range_Parameters [] names = Inr names"
| "range_Parameters (p # ps) names =
     (case ParameterMetadata_Name p of
        None \<Rightarrow> Inl NilDereference
      | Some n \<Rightarrow> range_Parameters ps (append_slice names n))"

definition listBucketsHandler :: "awsClients \<Rightarrow> string \<Rightarrow> gin_HandlerFunc" where
  "listBucketsHandler cl version w c =
     (case s3_ListBuckets w (s3 cl) of
        Inl err \<Rightarrow> ([EvListBuckets], Inr (Status c StatusInternalServerError))
      | Inr out \<Rightarrow>
          (case range_Buckets (Buckets out) None of
             Inl p \<Rightarrow> ([EvListBuckets], Inl p)
           | Inr names \<Rightarrow>
               ([EvListBuckets],
                Inr (JSON c StatusOK \<lparr>Version = version, Data = AnyStrings names\<rparr>))))"

definition listParametersHandler :: "awsClients \<Rightarrow> string \<Rightarrow> gin_HandlerFunc" where
  "listParametersHandler cl version w c =
     (case ssm_DescribeParameters w (ssm cl) of
        Inl err \<Rightarrow> ([EvDescribeParameters], Inr (Status c StatusInternalServerError))
      | Inr out \<Rightarrow>
          (case range_Parameters (Parameters out) None of
             Inl p \<Rightarrow> ([EvDescribeParameters], Inl p)
           | Inr names \<Rightarrow>
               ([EvDescribeParameters],
                Inr (JSON c StatusOK \<lparr>Version = version, Data = AnyStrings names\<rparr>))))"

definition getParameterHandler :: "awsClients \<Rightarrow> string \<Rightarrow> gin_HandlerFunc" where
  "getParameterHandler cl version w c =
     (let name = Param c ''name'' in
      case ssm_GetParameter w (ssm cl) \<lparr>Input_Name = Some name\<rparr> of
        Inl err \<Rightarrow> ([EvGetParameter (Some name)], Inr (Status c StatusNotFound))
      | Inr out \<Rightarrow>
          (case Parameter out of
             None \<Rightarrow> ([EvGetParameter (Some name)], Inl NilDereference)
           | Some p \<Rightarrow>
               (case Parameter_Value p of
                  None \<Rightarrow> ([EvGetParameter (Some name)], Inl NilDereference)
                | Some v \<Rightarrow>
                    ([EvGetParameter (Some name)],
                     Inr (JSON c StatusOK \<lparr>Version = version, Data = AnyString v\<rparr>)))))"

definition livenessHandler :: gin_HandlerFunc where
  "livenessHandler w c = ([], Inr (Status c StatusOK))"

text \<open>
  \<open>gin.Default()\<close> is an engine with two middlewares, \<open>Logger\<close> and \<open>Recovery\<close>, and
  \<open>r.GET\<close> registers under a path the chain of the engine's middlewares followed by the
  handler. A middleware is given the rest of the chain, which it runs by \<open>c.Next()\<close>.
  \<open>Logger\<close> writes a line to the log after the rest has run and changes nothing of the
  response; \<open>Recovery\<close> recovers a panic of the rest and answers 500 (the handlers of
  this program have written nothing when they panic).
\<close>

type_synonym gin_Middleware = "gin_HandlerFunc \<Rightarrow> gin_HandlerFunc"

definition Logger :: gin_Middleware where
  "Logger next w c = next w c"

definition Recovery :: gin_Middleware where
  "Recovery next w c =
     (case next w c of
        (evs, Inl p) \<Rightarrow> (evs, Inr (Status c StatusInternalServerError))
      | (evs, Inr c') \<Rightarrow> (evs, Inr c'))"

record gin_Engine =
  Handlers :: "gin_Middleware list"
  trees :: "(string \<times> gin_HandlerFunc) list"

definition gin_Default :: gin_Engine where
  "gin_Default = \<lparr>Handlers = [Logger, Recovery], trees = []\<rparr>"

definition GET :: "gin_Engine \<Rightarrow> string \<Rightarrow> gin_HandlerFunc \<Rightarrow> gin_Engine" where
  "GET r path h = r\<lparr>trees := trees r @ [(path, foldr (\<lambda>m rest. m rest) (Handlers r) h)]\<rparr>"

text \<open>
  How \<open>main\<close> ends: \<open>log.Fatal\<close>, a panic, or serving on an address with the routes it
  registered (\<open>r.Run\<close> does not return).
\<close>

datatype outcome =
    LogFatal string
  | Panic string
  | Serving string "(string \<times> gin_HandlerFunc) list"

definition main :: "world \<Rightarrow> event list \<times> outcome" where
  "main w =
     (case envconfig_Process w of
        Inl err \<Rightarrow> ([EvEnvconfigProcess], LogFatal (Error_msg err))
      | Inr cfg \<Rightarrow>
          (case newAWSClients w of
             (evs, Inl err) \<Rightarrow>
               (EvEnvconfigProcess # evs, Panic (''AWS init failed: '' @ Error_msg err))
           | (evs, Inr clients) \<Rightarrow>
               (let r = gin_Default;
                    r = GET r ''/buckets'' (listBucketsHandler clients (VERSION cfg));
                    r = GET r ''/parameters'' (listParametersHandler clients (VERSION cfg));
                    r = GET r ''/parameters/:name'' (getParameterHandler clients (VERSION cfg));
                    r = GET r ''/livez'' livenessHandler;
                    addr = '':8081'';
                    tr = EvEnvconfigProcess # evs
                           @ [EvLogPrintf (''Service listening on '' @ addr), EvRun addr]
                in case gin_Run w addr of
                     Some err \<Rightarrow> (tr, LogFatal (''router error: '' @ Error_msg err))
                   | None \<Rightarrow> (tr, Serving addr (trees r)))))"


section \<open>The order of startup, and example worlds\<close>

text \<open>
  The events of a startup that gets as far as \<open>r.Run\<close>, and worlds the theorems below
  are evaluated on: one where everything works, one where every remote call fails, one
  whose listings are empty, one whose replies hold nil fields, one without the
  \<open>VERSION\<close> variable, one where the port cannot be bound, and one whose \<open>VERSION\<close>
  holds a byte that is not UTF-8.
\<close>

definition example_Config :: aws_Config where
  "example_Config = aws_Config ''eu-west-1''"

definition example_clients :: awsClients where
  "example_clients = \<lparr>s3 = s3_NewFromConfig example_Config, ssm = ssm_NewFromConfig example_Config\<rparr>"

definition example_world :: world where
  "example_world =
     \<lparr>environ = [''VERSION'' \<mapsto> ''1.4.2''],
      config_LoadDefaultConfig = Inr example_Config,
      sts_GetCallerIdentity = (\<lambda>cl. Inr \<lparr>Arn = Some ''arn:aws:iam::000000000000:user/aux''\<rparr>),
      s3_ListBuckets = (\<lambda>cl. Inr \<lparr>Buckets = [\<lparr>Bucket_Name = Some ''a''\<rparr>, \<lparr>Bucket_Name = Some ''b''\<rparr>]\<rparr>),
      ssm_DescribeParameters =
        (\<lambda>cl. Inr \<lparr>Parameters = [\<lparr>ParameterMetadata_Name = Some ''foo''\<rparr>,
                                  \<lparr>ParameterMetadata_Name = Some ''baz''\<rparr>]\<rparr>),
      ssm_GetParameter =
        (\<lambda>cl i. if Input_Name i = Some ''foo''
                then Inr \<lparr>Parameter = Some \<lparr>Parameter_Value = Some ''bar''\<rparr>\<rparr>
                else Inl (Error ''ParameterNotFound'')),
      gin_Run = (\<lambda>addr. None)\<rparr>"

definition failing_world :: world where
  "failing_world =
     example_world
       \<lparr>s3_ListBuckets := (\<lambda>cl. Inl (Error ''AccessDenied'')),
        ssm_DescribeParameters := (\<lambda>cl. Inl (Error ''ThrottlingException'')),
        ssm_GetParameter := (\<lambda>cl i. Inl (Error ''InternalServerError''))\<rparr>"

definition empty_world :: world where
  "empty_world =
     example_world
       \<lparr>s3_ListBuckets := (\<lambda>cl. Inr \<lparr>Buckets = []\<rparr>),
        ssm_DescribeParameters := (\<lambda>cl. Inr \<lparr>Parameters = []\<rparr>)\<rparr>"

definition nil_world :: world where
  "nil_world =
     example_world
       \<lparr>s3_ListBuckets := (\<lambda>cl. Inr \<lparr>Buckets = [\<lparr>Bucket_Name = Some ''a''\<rparr>, \<lparr>Bucket_Name = None\<rparr>]\<rparr>),
        ssm_DescribeParameters := (\<lambda>cl. Inr \<lparr>Parameters = [\<lparr>ParameterMetadata_Name = None\<rparr>]\<rparr>),
        ssm_GetParameter := (\<lambda>cl i. Inr \<lparr>Parameter = Some \<lparr>Parameter_Value = None\<rparr>\<rparr>)\<rparr>"

definition unversioned_world :: world where
  "unversioned_world = example_world\<lparr>environ := Map.empty\<rparr>"

definition busy_world :: world where
  "busy_world =
     example_world
       \<lparr>gin_Run := (\<lambda>addr. Some (Error ''listen tcp :8081: bind: address already in use''))\<rparr>"

definition raw_version :: string where
  "raw_version = [CHR 0x76, CHR 0xFF, CHR 0x31]"

definition raw_world :: world where
  "raw_world = example_world\<lparr>environ := [''VERSION'' \<mapsto> raw_version]\<rparr>"

definition startup_order :: "event list" where
  "startup_order =
     [EvEnvconfigProcess, EvLoadDefaultConfig, EvGetCallerIdentity,
      EvLogPrintf ''Service listening on :8081'', EvRun '':8081'']"

lemmas status_defs = StatusOK_def StatusNotFound_def StatusInternalServerError_def

section \<open>Strings as the encoder writes them\<close>

text \<open>
  The encoder leaves a string as it is exactly when it is valid UTF-8; each replaced
  byte makes the written string two bytes longer.
\<close>

lemma json_text_valid: "ValidString s \<Longrightarrow> json_text s = s"
  by (induction s rule: json_text.induct) (auto split: option.splits)

lemma length_json_text: "length s \<le> length (json_text s)"
proof (induction s rule: json_text.induct)
  case 1
  then show ?case by simp
next
  case (2 c cs)
  show ?case
  proof (cases "DecodeRuneInString (c # cs)")
    case None
    with 2 show ?thesis by (simp add: RuneError_def)
  next
    case (Some n)
    with 2 have "length (drop n (c # cs)) \<le> length (json_text (drop n (c # cs)))" by simp
    moreover have "length (c # cs) = length (take n (c # cs)) + length (drop n (c # cs))"
      by (metis append_take_drop_id length_append)
    moreover have "length (json_text (c # cs)) =
        length (take n (c # cs)) + length (json_text (drop n (c # cs)))"
      using Some by (simp del: length_take length_drop take_Suc_Cons drop_Suc_Cons)
    ultimately show ?thesis by linarith
  qed
qed

lemma json_text_invalid: "\<not> ValidString s \<Longrightarrow> length s < length (json_text s)"
proof (induction s rule: json_text.induct)
  case 1
  then show ?case by simp
next
  case (2 c cs)
  show ?case
  proof (cases "DecodeRuneInString (c # cs)")
    case None
    with length_json_text [of cs] show ?thesis by (simp add: RuneError_def)
  next
    case (Some n)
    with 2 have "length (drop n (c # cs)) < length (json_text (drop n (c # cs)))" by simp
    moreover have "length (c # cs) = length (take n (c # cs)) + length (drop n (c # cs))"
      by (metis append_take_drop_id length_append)
    moreover have "length (json_text (c # cs)) =
        length (take n (c # cs)) + length (json_text (drop n (c # cs)))"
      using Some by (simp del: length_take length_drop take_Suc_Cons drop_Suc_Cons)
    ultimately show ?thesis by linarith
  qed
qed

lemma json_text_eq_iff: "(json_text s = s) = ValidString s"
  using json_text_valid json_text_invalid by fastforce

lemma map_json_text_valid:
  "list_all ValidString xs \<Longrightarrow> map (\<lambda>x. JString (json_text x)) xs = map JString xs"
  by (induction xs) (simp_all add: json_text_valid)

lemmas utf8_eval = DecodeRuneInString_def first_size_def acceptRange_def continuation_def
  RuneError_def

section \<open>The range loops\<close>

text \<open>
  A loop over items that all carry a name returns the names in order, appended to what
  was collected before; \<open>names\<close> stays nil when there is no item. A loop that meets a
  nil name panics, and that is the only way it fails.
\<close>

lemma range_Buckets_names:
  "map Bucket_Name bs = map Some ns \<Longrightarrow>
   range_Buckets bs names = Inr (if ns = [] then names else Some (elems names @ ns))"
proof (induction bs arbitrary: ns names)
  case Nil
  then show ?case by simp
next
  case (Cons b bs)
  then obtain n ns' where ns: "ns = n # ns'" and b: "Bucket_Name b = Some n"
    and rest: "map Bucket_Name bs = map Some ns'"
    by (cases ns) auto
  from Cons.IH [OF rest, of "append_slice names n"] ns b show ?case
    by (simp add: append_slice_def elems_def split: option.splits)
qed

lemma range_Buckets_nil:
  "None \<in> set (map Bucket_Name bs) \<Longrightarrow> range_Buckets bs names = Inl NilDereference"
  by (induction bs arbitrary: names) (auto split: option.splits)

lemma range_Buckets_Inl:
  "range_Buckets bs names = Inl p \<Longrightarrow> p = NilDereference \<and> None \<in> set (map Bucket_Name bs)"
  by (induction bs arbitrary: names) (auto split: option.splits)

lemma range_Parameters_names:
  "map ParameterMetadata_Name xs = map Some ns \<Longrightarrow>
   range_Parameters xs names = Inr (if ns = [] then names else Some (elems names @ ns))"
proof (induction xs arbitrary: ns names)
  case Nil
  then show ?case by simp
next
  case (Cons x xs)
  then obtain n ns' where ns: "ns = n # ns'" and x: "ParameterMetadata_Name x = Some n"
    and rest: "map ParameterMetadata_Name xs = map Some ns'"
    by (cases ns) auto
  from Cons.IH [OF rest, of "append_slice names n"] ns x show ?case
    by (simp add: append_slice_def elems_def split: option.splits)
qed

lemma range_Parameters_nil:
  "None \<in> set (map ParameterMetadata_Name xs) \<Longrightarrow> range_Parameters xs names = Inl NilDereference"
  by (induction xs arbitrary: names) (auto split: option.splits)

lemma range_Parameters_Inl:
  "range_Parameters xs names = Inl p \<Longrightarrow> p = NilDereference \<and> None \<in> set (map ParameterMetadata_Name xs)"
  by (induction xs arbitrary: names) (auto split: option.splits)

section \<open>The handlers, branch by branch\<close>

lemma listBucketsHandler_ok:
  assumes "s3_ListBuckets w (s3 cl) = Inr out"
    and "map Bucket_Name (Buckets out) = map Some ns"
  shows "listBucketsHandler cl v w (new_Context ps) =
           ([EvListBuckets],
            Inr \<lparr>Params = ps, status = 200,
                 body = Some (JObject [(''version'', JString (json_text v)),
                   (''data'', if ns = [] then JNull
                              else JArray (map (\<lambda>n. JString (json_text n)) ns))])\<rparr>)"
  using assms(1) range_Buckets_names [OF assms(2), of None]
  by (simp add: listBucketsHandler_def JSON_def new_Context_def marshal_def elems_def status_defs)

lemma listParametersHandler_ok:
  assumes "ssm_DescribeParameters w (ssm cl) = Inr out"
    and "map ParameterMetadata_Name (Parameters out) = map Some ns"
  shows "listParametersHandler cl v w (new_Context ps) =
           ([EvDescribeParameters],
            Inr \<lparr>Params = ps, status = 200,
                 body = Some (JObject [(''version'', JString (json_text v)),
                   (''data'', if ns = [] then JNull
                              else JArray (map (\<lambda>n. JString (json_text n)) ns))])\<rparr>)"
  using assms(1) range_Parameters_names [OF assms(2), of None]
  by (simp add: listParametersHandler_def JSON_def new_Context_def marshal_def elems_def status_defs)

lemma listBucketsHandler_nil:
  assumes "s3_ListBuckets w (s3 cl) = Inr out"
    and "None \<in> set (map Bucket_Name (Buckets out))"
  shows "listBucketsHandler cl v w c = ([EvListBuckets], Inl NilDereference)"
  using assms(1) range_Buckets_nil [OF assms(2), of None]
  by (simp add: listBucketsHandler_def)

lemma listParametersHandler_nil:
  assumes "ssm_DescribeParameters w (ssm cl) = Inr out"
    and "None \<in> set (map ParameterMetadata_Name (Parameters out))"
  shows "listParametersHandler cl v w c = ([EvDescribeParameters], Inl NilDereference)"
  using assms(1) range_Parameters_nil [OF assms(2), of None]
  by (simp add: listParametersHandler_def)

lemma getParameterHandler_nil:
  "ssm_GetParameter w (ssm cl) \<lparr>Input_Name = Some (Param c ''name'')\<rparr> = Inr out \<Longrightarrow>
   Parameter out = None \<or> (\<exists>p. Parameter out = Some p \<and> Parameter_Value p = None) \<Longrightarrow>
   getParameterHandler cl v w c = ([EvGetParameter (Some (Param c ''name''))], Inl NilDereference)"
  by (auto simp add: getParameterHandler_def)

lemma listBucketsHandler_panics_iff:
  assumes "s3_ListBuckets w (s3 cl) = Inr bo"
  shows "(listBucketsHandler cl v w c = ([EvListBuckets], Inl NilDereference)) =
         (None \<in> set (map Bucket_Name (Buckets bo)))"
proof
  assume "listBucketsHandler cl v w c = ([EvListBuckets], Inl NilDereference)"
  with assms obtain p where "range_Buckets (Buckets bo) None = Inl p"
    by (auto simp add: listBucketsHandler_def split: sum.splits)
  then show "None \<in> set (map Bucket_Name (Buckets bo))"
    using range_Buckets_Inl by blast
next
  assume "None \<in> set (map Bucket_Name (Buckets bo))"
  with assms show "listBucketsHandler cl v w c = ([EvListBuckets], Inl NilDereference)"
    by (rule listBucketsHandler_nil)
qed

lemma listParametersHandler_panics_iff:
  assumes "ssm_DescribeParameters w (ssm cl) = Inr po"
  shows "(listParametersHandler cl v w c = ([EvDescribeParameters], Inl NilDereference)) =
         (None \<in> set (map ParameterMetadata_Name (Parameters po)))"
proof
  assume "listParametersHandler cl v w c = ([EvDescribeParameters], Inl NilDereference)"
  with assms obtain p where "range_Parameters (Parameters po) None = Inl p"
    by (auto simp add: listParametersHandler_def split: sum.splits)
  then show "None \<in> set (map ParameterMetadata_Name (Parameters po))"
    using range_Parameters_Inl by blast
next
  assume "None \<in> set (map ParameterMetadata_Name (Parameters po))"
  with assms show "listParametersHandler cl v w c = ([EvDescribeParameters], Inl NilDereference)"
    by (rule listParametersHandler_nil)
qed

lemma getParameterHandler_panics_iff:
  assumes "ssm_GetParameter w (ssm cl) \<lparr>Input_Name = Some (Param c ''name'')\<rparr> = Inr go"
  shows "(getParameterHandler cl v w c =
            ([EvGetParameter (Some (Param c ''name''))], Inl NilDereference)) =
         (Parameter go = None \<or> (\<exists>p. Parameter go = Some p \<and> Parameter_Value p = None))"
  using assms by (auto simp add: getParameterHandler_def Let_def split: option.splits)

lemma nil_world_replies:
  "s3_ListBuckets nil_world x =
     Inr \<lparr>Buckets = [\<lparr>Bucket_Name = Some ''a''\<rparr>, \<lparr>Bucket_Name = None\<rparr>]\<rparr>"
  "ssm_DescribeParameters nil_world y = Inr \<lparr>Parameters = [\<lparr>ParameterMetadata_Name = None\<rparr>]\<rparr>"
  "ssm_GetParameter nil_world y i = Inr \<lparr>Parameter = Some \<lparr>Parameter_Value = None\<rparr>\<rparr>"
  by (simp_all add: nil_world_def example_world_def)

text \<open>
  A business handler that returns has either answered 200 with an envelope carrying its
  version, or written no body under another status.
\<close>

lemma listBucketsHandler_returns:
  "listBucketsHandler cl v w (new_Context ps) = (evs, Inr c') \<Longrightarrow>
   (\<exists>d. status c' = 200 \<and>
      body c' = Some (JObject [(''version'', JString (json_text v)), (''data'', d)])) \<or>
   (status c' \<noteq> 200 \<and> body c' = None)"
  by (auto simp add: listBucketsHandler_def JSON_def Status_def new_Context_def marshal_def
      status_defs split: sum.splits)

lemma listParametersHandler_returns:
  "listParametersHandler cl v w (new_Context ps) = (evs, Inr c') \<Longrightarrow>
   (\<exists>d. status c' = 200 \<and>
      body c' = Some (JObject [(''version'', JString (json_text v)), (''data'', d)])) \<or>
   (status c' \<noteq> 200 \<and> body c' = None)"
  by (auto simp add: listParametersHandler_def JSON_def Status_def new_Context_def marshal_def
      status_defs split: sum.splits)

lemma getParameterHandler_returns:
  "getParameterHandler cl v w (new_Context ps) = (evs, Inr c') \<Longrightarrow>
   (\<exists>d. status c' = 200 \<and>
      body c' = Some (JObject [(''version'', JString (json_text v)), (''data'', d)])) \<or>
   (status c' \<noteq> 200 \<and> body c' = None)"
  by (auto simp add: getParameterHandler_def JSON_def Status_def new_Context_def marshal_def
      Let_def status_defs split: sum.splits option.splits)

text \<open>
  Under the engine's middlewares a route always returns: what the handler returned, or
  500 with no body where it panicked.
\<close>

lemma Logger_Recovery_returns:
  "Logger (Recovery h) w (new_Context ps) = (evs, res) \<Longrightarrow>
   (\<exists>c'. res = Inr c' \<and>
      (h w (new_Context ps) = (evs, Inr c') \<or> (status c' \<noteq> 200 \<and> body c' = None)))"
  by (auto simp add: Logger_def Recovery_def Status_def new_Context_def status_defs
      split: prod.splits sum.splits)

lemma Logger_Recovery_livenessHandler: "Logger (Recovery livenessHandler) = livenessHandler"
  by (rule ext, rule ext) (simp add: Logger_def Recovery_def livenessHandler_def)

section \<open>Startup, path by path\<close>

text \<open>
  \<open>main\<close> has four ways through its checks: no \<open>VERSION\<close>, no SDK configuration, a
  refused identity call, or all three passed and \<open>r.Run\<close> called, which serves or
  returns an error.
\<close>

lemma main_no_version:
  "environ w ''VERSION'' = None \<Longrightarrow>
   main w = ([EvEnvconfigProcess], LogFatal ''required key VERSION missing value'')"
  by (simp add: main_def envconfig_Process_def)

lemma main_no_config:
  "environ w ''VERSION'' = Some v \<Longrightarrow> config_LoadDefaultConfig w = Inl err \<Longrightarrow>
   main w = ([EvEnvconfigProcess, EvLoadDefaultConfig],
             Panic (''AWS init failed: '' @ Error_msg err))"
  by (simp add: main_def envconfig_Process_def newAWSClients_def)

lemma main_no_identity:
  "environ w ''VERSION'' = Some v \<Longrightarrow> config_LoadDefaultConfig w = Inr cfg \<Longrightarrow>
   sts_GetCallerIdentity w (sts_NewFromConfig cfg) = Inl err \<Longrightarrow>
   main w = ([EvEnvconfigProcess, EvLoadDefaultConfig, EvGetCallerIdentity],
             Panic (''AWS init failed: '' @ Error_msg err))"
  by (simp add: main_def envconfig_Process_def newAWSClients_def)

lemma main_run:
  "environ w ''VERSION'' = Some v \<Longrightarrow> config_LoadDefaultConfig w = Inr cfg \<Longrightarrow>
   sts_GetCallerIdentity w (sts_NewFromConfig cfg) = Inr out \<Longrightarrow>
   main w =
     (startup_order,
      case gin_Run w '':8081'' of
        Some err \<Rightarrow> LogFatal (''router error: '' @ Error_msg err)
      | None \<Rightarrow>
          Serving '':8081''
            [(''/buckets'',
              Logger (Recovery (listBucketsHandler
                \<lparr>s3 = s3_NewFromConfig cfg, ssm = ssm_NewFromConfig cfg\<rparr> v))),
             (''/parameters'',
              Logger (Recovery (listParametersHandler
                \<lparr>s3 = s3_NewFromConfig cfg, ssm = ssm_NewFromConfig cfg\<rparr> v))),
             (''/parameters/:name'',
              Logger (Recovery (getParameterHandler
                \<lparr>s3 = s3_NewFromConfig cfg, ssm = ssm_NewFromConfig cfg\<rparr> v))),
             (''/livez'', Logger (Recovery livenessHandler))])"
  by (simp add: main_def envconfig_Process_def newAWSClients_def startup_order_def Let_def
      gin_Default_def GET_def split: option.splits)

lemma main_Serving:
  assumes "main w = (tr, Serving addr r)"
  shows "\<exists>v cl. environ w ''VERSION'' = Some v \<and>
           r = [(''/buckets'', Logger (Recovery (listBucketsHandler cl v))),
                (''/parameters'', Logger (Recovery (listParametersHandler cl v))),
                (''/parameters/:name'', Logger (Recovery (getParameterHandler cl v))),
                (''/livez'', Logger (Recovery livenessHandler))]"
proof (cases "environ w ''VERSION''")
  case None
  from main_no_version [OF None] assms show ?thesis by simp
next
  case (Some v)
  show ?thesis
  proof (cases "config_LoadDefaultConfig w")
    case (Inl err)
    from main_no_config [OF Some Inl] assms show ?thesis by simp
  next
    case (Inr cfg)
    show ?thesis
    proof (cases "sts_GetCallerIdentity w (sts_NewFromConfig cfg)")
      case (Inl err)
      from main_no_identity [OF Some Inr Inl] assms show ?thesis by simp
    next
      case out: (Inr out)
      from main_run [OF Some Inr out] assms Some show ?thesis
        by (auto split: option.splits)
    qed
  qed
qed

lemma main_trace_prefix: "prefix (fst (main w)) startup_order"
proof (cases "environ w ''VERSION''")
  case None
  from main_no_version [OF None] show ?thesis by (simp add: startup_order_def)
next
  case (Some v)
  show ?thesis
  proof (cases "config_LoadDefaultConfig w")
    case (Inl err)
    from main_no_config [OF Some Inl] show ?thesis by (simp add: startup_order_def)
  next
    case (Inr cfg)
    show ?thesis
    proof (cases "sts_GetCallerIdentity w (sts_NewFromConfig cfg)")
      case (Inl err)
      from main_no_identity [OF Some Inr Inl] show ?thesis by (simp add: startup_order_def)
    next
      case out: (Inr out)
      from main_run [OF Some Inr out] show ?thesis by simp
    qed
  qed
qed

section \<open>The list endpoints return the names in order (C1)\<close>

text \<open>
  C1, amended. When the remote call of a list endpoint succeeds and every returned item
  carries a name (no nil \<open>Name\<close> pointer), the handler answers 200 with the envelope
  \<open>{version, data}\<close>, where \<open>data\<close> holds exactly the item names, in the order the
  remote API returned them: a JSON array of them, or \<open>null\<close> when there is no item
  (the nil slice, see C9). Both \<open>/buckets\<close> and \<open>/parameters\<close>. Each string is what the
  encoder writes for it, which for names that are valid UTF-8 (all that the SDK's decoders
  hand over) is the name itself.
\<close>

theorem list_handlers_return_names_in_order:
  "(s3_ListBuckets w (s3 cl) = Inr bo \<and> map Bucket_Name (Buckets bo) = map Some ns \<longrightarrow>
      listBucketsHandler cl v w (new_Context ps) =
        ([EvListBuckets],
         Inr \<lparr>Params = ps, status = 200,
              body = Some (JObject [(''version'', JString (json_text v)),
                (''data'', if ns = [] then JNull
                           else JArray (map (\<lambda>n. JString (json_text n)) ns))])\<rparr>)) \<and>
   (ssm_DescribeParameters w (ssm cl) = Inr po \<and>
    map ParameterMetadata_Name (Parameters po) = map Some ms \<longrightarrow>
      listParametersHandler cl v w (new_Context ps) =
        ([EvDescribeParameters],
         Inr \<lparr>Params = ps, status = 200,
              body = Some (JObject [(''version'', JString (json_text v)),
                (''data'', if ms = [] then JNull
                           else JArray (map (\<lambda>n. JString (json_text n)) ms))])\<rparr>)) \<and>
   (list_all ValidString ns \<longrightarrow> map (\<lambda>n. JString (json_text n)) ns = map JString ns) \<and>
   (list_all ValidString ms \<longrightarrow> map (\<lambda>n. JString (json_text n)) ms = map JString ms)"
  using listBucketsHandler_ok listParametersHandler_ok map_json_text_valid by blast

text \<open>
  The amended C1 at the spec's own example: buckets \<open>a\<close>, \<open>b\<close> and parameters
  \<open>foo\<close>, \<open>baz\<close>.
\<close>

theorem list_handlers_return_names_in_order_witness:
  "s3_ListBuckets example_world (s3 example_clients) =
     Inr \<lparr>Buckets = [\<lparr>Bucket_Name = Some ''a''\<rparr>, \<lparr>Bucket_Name = Some ''b''\<rparr>]\<rparr> \<and>
   listBucketsHandler example_clients ''1.4.2'' example_world (new_Context []) =
     ([EvListBuckets],
      Inr \<lparr>Params = [], status = 200,
           body = Some (JObject [(''version'', JString ''1.4.2''),
             (''data'', JArray [JString ''a'', JString ''b''])])\<rparr>) \<and>
   ssm_DescribeParameters example_world (ssm example_clients) =
     Inr \<lparr>Parameters = [\<lparr>ParameterMetadata_Name = Some ''foo''\<rparr>,
                        \<lparr>ParameterMetadata_Name = Some ''baz''\<rparr>]\<rparr> \<and>
   listParametersHandler example_clients ''1.4.2'' example_world (new_Context []) =
     ([EvDescribeParameters],
      Inr \<lparr>Params = [], status = 200,
           body = Some (JObject [(''version'', JString ''1.4.2''),
             (''data'', JArray [JString ''foo'', JString ''baz''])])\<rparr>)"
proof -
  have b: "s3_ListBuckets example_world (s3 example_clients) =
      Inr \<lparr>Buckets = [\<lparr>Bucket_Name = Some ''a''\<rparr>, \<lparr>Bucket_Name = Some ''b''\<rparr>]\<rparr>"
    by (simp add: example_world_def)
  have p: "ssm_DescribeParameters example_world (ssm example_clients) =
      Inr \<lparr>Parameters = [\<lparr>ParameterMetadata_Name = Some ''foo''\<rparr>,
                         \<lparr>ParameterMetadata_Name = Some ''baz''\<rparr>]\<rparr>"
    by (simp add: example_world_def)
  have v: "list_all ValidString [''a'', ''b'']" "list_all ValidString [''foo'', ''baz'']"
    "json_text ''1.4.2'' = ''1.4.2''"
    by (simp_all add: utf8_eval)
  from b p v
    list_handlers_return_names_in_order
      [of example_world example_clients
          "\<lparr>Buckets = [\<lparr>Bucket_Name = Some ''a''\<rparr>, \<lparr>Bucket_Name = Some ''b''\<rparr>]\<rparr>"
          "[''a'', ''b'']" "''1.4.2''" "[]"
          "\<lparr>Parameters = [\<lparr>ParameterMetadata_Name = Some ''foo''\<rparr>,
                          \<lparr>ParameterMetadata_Name = Some ''baz''\<rparr>]\<rparr>"
          "[''foo'', ''baz'']"]
  show ?thesis by simp
qed

text \<open>
  C1 as stated fails: \<open>ListBuckets\<close> succeeds and returns two buckets, the second
  with a nil \<open>Name\<close>, and the handler panics on \<open>*b.Name\<close> instead of answering 200.
\<close>

theorem list_handlers_nil_name_counterexample:
  "s3_ListBuckets nil_world (s3 example_clients) =
     Inr \<lparr>Buckets = [\<lparr>Bucket_Name = Some ''a''\<rparr>, \<lparr>Bucket_Name = None\<rparr>]\<rparr> \<and>
   listBucketsHandler example_clients ''1.4.2'' nil_world (new_Context []) =
     ([EvListBuckets], Inl NilDereference)"
  by (simp add: nil_world_def example_world_def listBucketsHandler_def)

section \<open>Any error of get-parameter is a 404 (C2)\<close>

text \<open>
  C2. Whenever \<open>GetParameter\<close> returns an error, whatever the error is,
  \<open>GET /parameters/:name\<close> answers 404 with an empty body, after that one remote call.
\<close>

theorem getParameter_error_is_404:
  "ssm_GetParameter w (ssm cl) \<lparr>Input_Name = Some (Param (new_Context ps) ''name'')\<rparr> = Inl err \<Longrightarrow>
   getParameterHandler cl v w (new_Context ps) =
     ([EvGetParameter (Some (Param (new_Context ps) ''name''))],
      Inr \<lparr>Params = ps, status = 404, body = None\<rparr>)"
  by (simp add: getParameterHandler_def Status_def new_Context_def StatusNotFound_def)

text \<open>
  C2 on two kinds of error: a parameter that is not found, and an internal error of the
  remote service. Both give the same 404.
\<close>

theorem getParameter_error_is_404_witness:
  "ssm_GetParameter example_world (ssm example_clients) \<lparr>Input_Name = Some ''missing''\<rparr> =
     Inl (Error ''ParameterNotFound'') \<and>
   getParameterHandler example_clients ''1.4.2'' example_world (new_Context [(''name'', ''missing'')]) =
     ([EvGetParameter (Some ''missing'')],
      Inr \<lparr>Params = [(''name'', ''missing'')], status = 404, body = None\<rparr>) \<and>
   ssm_GetParameter failing_world (ssm example_clients) \<lparr>Input_Name = Some ''foo''\<rparr> =
     Inl (Error ''InternalServerError'') \<and>
   getParameterHandler example_clients ''1.4.2'' failing_world (new_Context [(''name'', ''foo'')]) =
     ([EvGetParameter (Some ''foo'')],
      Inr \<lparr>Params = [(''name'', ''foo'')], status = 404, body = None\<rparr>)"
proof -
  have n1: "Param (new_Context [(''name'', ''missing'')]) ''name'' = ''missing''"
    and n2: "Param (new_Context [(''name'', ''foo'')]) ''name'' = ''foo''"
    by (simp_all add: Param_def new_Context_def)
  have h1: "ssm_GetParameter example_world (ssm example_clients)
      \<lparr>Input_Name = Some (Param (new_Context [(''name'', ''missing'')]) ''name'')\<rparr> =
      Inl (Error ''ParameterNotFound'')"
    by (simp add: n1 example_world_def)
  have h2: "ssm_GetParameter failing_world (ssm example_clients)
      \<lparr>Input_Name = Some (Param (new_Context [(''name'', ''foo'')]) ''name'')\<rparr> =
      Inl (Error ''InternalServerError'')"
    by (simp add: n2 failing_world_def example_world_def)
  from h1 h2 getParameter_error_is_404 [OF h1, of "''1.4.2''"]
    getParameter_error_is_404 [OF h2, of "''1.4.2''"]
  show ?thesis by (simp add: n1 n2)
qed

section \<open>When startup succeeds (C3)\<close>

text \<open>
  C3, amended. Startup succeeds (\<open>main\<close> ends serving on \<open>:8081\<close>) if and only if the
  \<open>VERSION\<close> variable is present, the identity check \<open>GetCallerIdentity\<close> is made and
  succeeds, and \<open>r.Run\<close> does not return an error. The identity check is made (it is in
  the trace) exactly when \<open>VERSION\<close> is present and the SDK configuration, with which
  the call is made, has loaded.
\<close>

theorem startup_succeeds_iff:
  "(\<exists>r. snd (main w) = Serving '':8081'' r) =
   (environ w ''VERSION'' \<noteq> None \<and>
    (\<exists>cfg out. config_LoadDefaultConfig w = Inr cfg \<and>
       sts_GetCallerIdentity w (sts_NewFromConfig cfg) = Inr out) \<and>
    gin_Run w '':8081'' = None) \<and>
   (EvGetCallerIdentity \<in> set (fst (main w))) =
   (environ w ''VERSION'' \<noteq> None \<and> (\<exists>cfg. config_LoadDefaultConfig w = Inr cfg))"
proof (cases "environ w ''VERSION''")
  case None
  from main_no_version [OF None] None show ?thesis by simp
next
  case (Some v)
  show ?thesis
  proof (cases "config_LoadDefaultConfig w")
    case (Inl err)
    from main_no_config [OF Some Inl] Some Inl show ?thesis by simp
  next
    case (Inr cfg)
    show ?thesis
    proof (cases "sts_GetCallerIdentity w (sts_NewFromConfig cfg)")
      case (Inl err)
      from main_no_identity [OF Some Inr Inl] Some Inr Inl show ?thesis by simp
    next
      case out: (Inr out)
      from main_run [OF Some Inr out] Some Inr out show ?thesis
        by (simp add: startup_order_def split: option.splits)
    qed
  qed
qed

text \<open>The amended C3 in the world where all the conditions hold.\<close>

theorem startup_succeeds_iff_witness:
  "environ example_world ''VERSION'' = Some ''1.4.2'' \<and>
   config_LoadDefaultConfig example_world = Inr example_Config \<and>
   sts_GetCallerIdentity example_world (sts_NewFromConfig example_Config) =
     Inr \<lparr>Arn = Some ''arn:aws:iam::000000000000:user/aux''\<rparr> \<and>
   gin_Run example_world '':8081'' = None \<and>
   (\<exists>r. snd (main example_world) = Serving '':8081'' r) \<and>
   EvGetCallerIdentity \<in> set (fst (main example_world))"
proof -
  have h: "environ example_world ''VERSION'' = Some ''1.4.2''"
    "config_LoadDefaultConfig example_world = Inr example_Config"
    "sts_GetCallerIdentity example_world (sts_NewFromConfig example_Config) =
       Inr \<lparr>Arn = Some ''arn:aws:iam::000000000000:user/aux''\<rparr>"
    "gin_Run example_world '':8081'' = None"
    by (simp_all add: example_world_def)
  from h startup_succeeds_iff [of example_world] show ?thesis by simp
qed

text \<open>
  C3 as stated fails: \<open>VERSION\<close> is present, the identity check is made and succeeds
  (it is in the trace, and its reply is no error), yet \<open>r.Run\<close> returns an error because
  the port is taken, and \<open>main\<close> ends in \<open>log.Fatalf\<close> without ever serving. The
  listener is a third condition.
\<close>

theorem startup_listener_counterexample:
  "environ busy_world ''VERSION'' = Some ''1.4.2'' \<and>
   config_LoadDefaultConfig busy_world = Inr example_Config \<and>
   sts_GetCallerIdentity busy_world (sts_NewFromConfig example_Config) =
     Inr \<lparr>Arn = Some ''arn:aws:iam::000000000000:user/aux''\<rparr> \<and>
   main busy_world =
     ([EvEnvconfigProcess, EvLoadDefaultConfig, EvGetCallerIdentity,
       EvLogPrintf ''Service listening on :8081'', EvRun '':8081''],
      LogFatal ''router error: listen tcp :8081: bind: address already in use'')"
  by (simp add: busy_world_def example_world_def main_def envconfig_Process_def
      newAWSClients_def Let_def)

section \<open>The envelope carries the configured version (C4)\<close>

text \<open>
  C4, amended. Once \<open>main\<close> serves, every business route it registered, on any request
  and in any later state of the world, returns; what it answers with status 200 is an
  envelope, and whatever body it writes is an envelope, whose \<open>version\<close> field is the
  value \<open>VERSION\<close> had in the environment at startup as the JSON encoder writes it: the
  same in every response, and that value itself exactly when it is valid UTF-8 (otherwise
  each offending byte is replaced by U+FFFD).
\<close>

theorem envelope_version_is_configured:
  assumes "main w = (tr, Serving addr r)"
    and "(path, h) \<in> set r"
    and "path \<noteq> ''/livez''"
    and "h w' (new_Context ps) = (evs, res)"
  shows "\<exists>v c'. environ w ''VERSION'' = Some v \<and> res = Inr c' \<and>
           (status c' = 200 \<longrightarrow>
              (\<exists>d. body c' = Some (JObject [(''version'', JString (json_text v)), (''data'', d)]))) \<and>
           (\<forall>j. body c' = Some j \<longrightarrow>
              (\<exists>d. j = JObject [(''version'', JString (json_text v)), (''data'', d)])) \<and>
           (json_text v = v) = ValidString v"
proof -
  from main_Serving [OF assms(1)] obtain v cl where v: "environ w ''VERSION'' = Some v"
    and r: "r = [(''/buckets'', Logger (Recovery (listBucketsHandler cl v))),
                 (''/parameters'', Logger (Recovery (listParametersHandler cl v))),
                 (''/parameters/:name'', Logger (Recovery (getParameterHandler cl v))),
                 (''/livez'', Logger (Recovery livenessHandler))]"
    by blast
  from assms(2,3) r consider "h = Logger (Recovery (listBucketsHandler cl v))"
    | "h = Logger (Recovery (listParametersHandler cl v))"
    | "h = Logger (Recovery (getParameterHandler cl v))"
    by auto
  then have "\<exists>c'. res = Inr c' \<and>
      ((\<exists>d. status c' = 200 \<and>
          body c' = Some (JObject [(''version'', JString (json_text v)), (''data'', d)])) \<or>
       (status c' \<noteq> 200 \<and> body c' = None))"
  proof cases
    case 1
    with assms(4) Logger_Recovery_returns [of "listBucketsHandler cl v" w' ps evs res]
    show ?thesis using listBucketsHandler_returns by blast
  next
    case 2
    with assms(4) Logger_Recovery_returns [of "listParametersHandler cl v" w' ps evs res]
    show ?thesis using listParametersHandler_returns by blast
  next
    case 3
    with assms(4) Logger_Recovery_returns [of "getParameterHandler cl v" w' ps evs res]
    show ?thesis using getParameterHandler_returns by blast
  qed
  then obtain c' where c': "res = Inr c'"
    and e: "(\<exists>d. status c' = 200 \<and>
          body c' = Some (JObject [(''version'', JString (json_text v)), (''data'', d)])) \<or>
       (status c' \<noteq> 200 \<and> body c' = None)"
    by blast
  from e have "status c' = 200 \<longrightarrow>
      (\<exists>d. body c' = Some (JObject [(''version'', JString (json_text v)), (''data'', d)]))"
    by blast
  moreover from e have "\<forall>j. body c' = Some j \<longrightarrow>
      (\<exists>d. j = JObject [(''version'', JString (json_text v)), (''data'', d)])"
    by auto
  ultimately show ?thesis using v c' json_text_eq_iff by blast
qed

text \<open>
  The amended C4 on all three business routes of the service started in the example world:
  \<open>/buckets\<close> and \<open>/parameters\<close> served in the world whose listings are empty,
  \<open>/parameters/foo\<close> served after \<open>VERSION\<close> has gone from the environment. Each
  answers 200 with the version read at startup.
\<close>

theorem envelope_version_is_configured_witness:
  "main example_world =
     (startup_order,
      Serving '':8081''
        [(''/buckets'', Logger (Recovery (listBucketsHandler example_clients ''1.4.2''))),
         (''/parameters'', Logger (Recovery (listParametersHandler example_clients ''1.4.2''))),
         (''/parameters/:name'', Logger (Recovery (getParameterHandler example_clients ''1.4.2''))),
         (''/livez'', Logger (Recovery livenessHandler))]) \<and>
   Logger (Recovery (listBucketsHandler example_clients ''1.4.2'')) empty_world (new_Context []) =
     ([EvListBuckets],
      Inr \<lparr>Params = [], status = 200,
           body = Some (JObject [(''version'', JString ''1.4.2''), (''data'', JNull)])\<rparr>) \<and>
   Logger (Recovery (listParametersHandler example_clients ''1.4.2'')) empty_world
       (new_Context []) =
     ([EvDescribeParameters],
      Inr \<lparr>Params = [], status = 200,
           body = Some (JObject [(''version'', JString ''1.4.2''), (''data'', JNull)])\<rparr>) \<and>
   Logger (Recovery (getParameterHandler example_clients ''1.4.2'')) unversioned_world
       (new_Context [(''name'', ''foo'')]) =
     ([EvGetParameter (Some ''foo'')],
      Inr \<lparr>Params = [(''name'', ''foo'')], status = 200,
           body = Some (JObject [(''version'', JString ''1.4.2''), (''data'', JString ''bar'')])\<rparr>) \<and>
   environ example_world ''VERSION'' = Some ''1.4.2'' \<and>
   json_text ''1.4.2'' = ''1.4.2'' \<and> ValidString ''1.4.2''"
proof -
  have m: "main example_world =
     (startup_order,
      Serving '':8081''
        [(''/buckets'', Logger (Recovery (listBucketsHandler example_clients ''1.4.2''))),
         (''/parameters'', Logger (Recovery (listParametersHandler example_clients ''1.4.2''))),
         (''/parameters/:name'', Logger (Recovery (getParameterHandler example_clients ''1.4.2''))),
         (''/livez'', Logger (Recovery livenessHandler))])"
    by (simp add: main_def envconfig_Process_def newAWSClients_def startup_order_def Let_def
        gin_Default_def GET_def example_world_def example_clients_def)
  have r1: "(''/buckets'', Logger (Recovery (listBucketsHandler example_clients ''1.4.2''))) \<in>
     set [(''/buckets'', Logger (Recovery (listBucketsHandler example_clients ''1.4.2''))),
         (''/parameters'', Logger (Recovery (listParametersHandler example_clients ''1.4.2''))),
         (''/parameters/:name'', Logger (Recovery (getParameterHandler example_clients ''1.4.2''))),
         (''/livez'', Logger (Recovery livenessHandler))]"
    and r2: "(''/parameters'',
        Logger (Recovery (listParametersHandler example_clients ''1.4.2''))) \<in>
     set [(''/buckets'', Logger (Recovery (listBucketsHandler example_clients ''1.4.2''))),
         (''/parameters'', Logger (Recovery (listParametersHandler example_clients ''1.4.2''))),
         (''/parameters/:name'', Logger (Recovery (getParameterHandler example_clients ''1.4.2''))),
         (''/livez'', Logger (Recovery livenessHandler))]"
    and r3: "(''/parameters/:name'',
        Logger (Recovery (getParameterHandler example_clients ''1.4.2''))) \<in>
     set [(''/buckets'', Logger (Recovery (listBucketsHandler example_clients ''1.4.2''))),
         (''/parameters'', Logger (Recovery (listParametersHandler example_clients ''1.4.2''))),
         (''/parameters/:name'', Logger (Recovery (getParameterHandler example_clients ''1.4.2''))),
         (''/livez'', Logger (Recovery livenessHandler))]"
    by simp_all
  have p: "''/buckets'' \<noteq> ''/livez''" "''/parameters'' \<noteq> ''/livez''"
    "''/parameters/:name'' \<noteq> ''/livez''"
    by simp_all
  have e: "environ example_world ''VERSION'' = Some ''1.4.2''"
    by (simp add: example_world_def)
  have s: "status \<lparr>Params = ps, status = 200, body = b\<rparr> = 200" for ps b
    by simp
  obtain ev1 res1 where h1: "Logger (Recovery (listBucketsHandler example_clients ''1.4.2''))
      empty_world (new_Context []) = (ev1, res1)"
    by (cases "Logger (Recovery (listBucketsHandler example_clients ''1.4.2''))
      empty_world (new_Context [])")
  obtain ev2 res2 where h2: "Logger (Recovery (listParametersHandler example_clients ''1.4.2''))
      empty_world (new_Context []) = (ev2, res2)"
    by (cases "Logger (Recovery (listParametersHandler example_clients ''1.4.2''))
      empty_world (new_Context [])")
  obtain ev3 res3 where h3: "Logger (Recovery (getParameterHandler example_clients ''1.4.2''))
      unversioned_world (new_Context [(''name'', ''foo'')]) = (ev3, res3)"
    by (cases "Logger (Recovery (getParameterHandler example_clients ''1.4.2''))
      unversioned_world (new_Context [(''name'', ''foo'')])")
  have k1: "(ev1, res1) = ([EvListBuckets],
      Inr \<lparr>Params = [], status = 200,
           body = Some (JObject [(''version'', JString ''1.4.2''), (''data'', JNull)])\<rparr>)"
    using h1 [symmetric]
    by (simp add: Logger_def Recovery_def listBucketsHandler_def JSON_def marshal_def
        new_Context_def StatusOK_def empty_world_def example_world_def utf8_eval)
  have k2: "(ev2, res2) = ([EvDescribeParameters],
      Inr \<lparr>Params = [], status = 200,
           body = Some (JObject [(''version'', JString ''1.4.2''), (''data'', JNull)])\<rparr>)"
    using h2 [symmetric]
    by (simp add: Logger_def Recovery_def listParametersHandler_def JSON_def marshal_def
        new_Context_def StatusOK_def empty_world_def example_world_def utf8_eval)
  have k3: "(ev3, res3) = ([EvGetParameter (Some ''foo'')],
      Inr \<lparr>Params = [(''name'', ''foo'')], status = 200,
           body = Some (JObject [(''version'', JString ''1.4.2''), (''data'', JString ''bar'')])\<rparr>)"
    using h3 [symmetric]
    by (simp add: Logger_def Recovery_def getParameterHandler_def Param_def JSON_def marshal_def
        new_Context_def StatusOK_def Let_def unversioned_world_def example_world_def utf8_eval)
  from envelope_version_is_configured [OF m r1 p(1) h1]
    envelope_version_is_configured [OF m r2 p(2) h2]
    envelope_version_is_configured [OF m r3 p(3) h3] e k1 k2 k3
  have "(json_text ''1.4.2'' = ''1.4.2'') = ValidString ''1.4.2''"
    and "json_text ''1.4.2'' = ''1.4.2''"
    by auto
  with m h1 h2 h3 k1 k2 k3 e show ?thesis by simp
qed

text \<open>
  C4 as stated fails, in its word verbatim: with \<open>VERSION\<close> set to the bytes 76 FF 31,
  the version field of the envelope \<open>/parameters/foo\<close> answers with is 76 EF BF BD 31,
  the byte FF replaced by U+FFFD, and not the configured string.
\<close>

theorem envelope_version_raw_bytes_counterexample:
  "environ raw_world ''VERSION'' = Some [CHR 0x76, CHR 0xFF, CHR 0x31] \<and>
   main raw_world =
     (startup_order,
      Serving '':8081''
        [(''/buckets'',
          Logger (Recovery (listBucketsHandler example_clients [CHR 0x76, CHR 0xFF, CHR 0x31]))),
         (''/parameters'',
          Logger (Recovery (listParametersHandler example_clients [CHR 0x76, CHR 0xFF, CHR 0x31]))),
         (''/parameters/:name'',
          Logger (Recovery (getParameterHandler example_clients [CHR 0x76, CHR 0xFF, CHR 0x31]))),
         (''/livez'', Logger (Recovery livenessHandler))]) \<and>
   Logger (Recovery (getParameterHandler example_clients [CHR 0x76, CHR 0xFF, CHR 0x31]))
       raw_world (new_Context [(''name'', ''foo'')]) =
     ([EvGetParameter (Some ''foo'')],
      Inr \<lparr>Params = [(''name'', ''foo'')], status = 200,
           body = Some (JObject
             [(''version'', JString [CHR 0x76, CHR 0xEF, CHR 0xBF, CHR 0xBD, CHR 0x31]),
              (''data'', JString ''bar'')])\<rparr>) \<and>
   [CHR 0x76, CHR 0xEF, CHR 0xBF, CHR 0xBD, CHR 0x31] \<noteq> [CHR 0x76, CHR 0xFF, CHR 0x31]"
  by (simp add: main_def envconfig_Process_def newAWSClients_def startup_order_def Let_def
      gin_Default_def GET_def raw_world_def raw_version_def example_world_def
      example_clients_def Logger_def Recovery_def getParameterHandler_def Param_def JSON_def
      marshal_def new_Context_def StatusOK_def utf8_eval)

section \<open>Liveness (C5)\<close>

text \<open>
  C5. \<open>livenessHandler\<close> answers 200 with an empty body and makes no remote call, in
  every state of the world; and it is what \<open>main\<close> registers under \<open>/livez\<close>,
  whatever client bundle was built (under the engine's middlewares, which change nothing
  of a handler that does not panic).
\<close>

theorem livez_always_200_no_calls:
  "livenessHandler w (new_Context ps) = ([], Inr \<lparr>Params = ps, status = 200, body = None\<rparr>) \<and>
   (main w0 = (tr, Serving addr r) \<longrightarrow> map_of r ''/livez'' = Some livenessHandler)"
proof
  show "livenessHandler w (new_Context ps) = ([], Inr \<lparr>Params = ps, status = 200, body = None\<rparr>)"
    by (simp add: livenessHandler_def Status_def new_Context_def StatusOK_def)
  show "main w0 = (tr, Serving addr r) \<longrightarrow> map_of r ''/livez'' = Some livenessHandler"
    using main_Serving [of w0 tr addr r] by (auto simp add: Logger_Recovery_livenessHandler)
qed

text \<open>C5 in the world where every remote call fails.\<close>

theorem livez_always_200_no_calls_witness:
  "main example_world =
     (startup_order,
      Serving '':8081''
        [(''/buckets'', Logger (Recovery (listBucketsHandler example_clients ''1.4.2''))),
         (''/parameters'', Logger (Recovery (listParametersHandler example_clients ''1.4.2''))),
         (''/parameters/:name'', Logger (Recovery (getParameterHandler example_clients ''1.4.2''))),
         (''/livez'', Logger (Recovery livenessHandler))]) \<and>
   map_of [(''/buckets'', Logger (Recovery (listBucketsHandler example_clients ''1.4.2''))),
         (''/parameters'', Logger (Recovery (listParametersHandler example_clients ''1.4.2''))),
         (''/parameters/:name'', Logger (Recovery (getParameterHandler example_clients ''1.4.2''))),
         (''/livez'', Logger (Recovery livenessHandler))] ''/livez'' = Some livenessHandler \<and>
   livenessHandler failing_world (new_Context []) =
     ([], Inr \<lparr>Params = [], status = 200, body = None\<rparr>)"
proof -
  have m: "main example_world =
     (startup_order,
      Serving '':8081''
        [(''/buckets'', Logger (Recovery (listBucketsHandler example_clients ''1.4.2''))),
         (''/parameters'', Logger (Recovery (listParametersHandler example_clients ''1.4.2''))),
         (''/parameters/:name'', Logger (Recovery (getParameterHandler example_clients ''1.4.2''))),
         (''/livez'', Logger (Recovery livenessHandler))])"
    by (simp add: main_def envconfig_Process_def newAWSClients_def startup_order_def Let_def
        gin_Default_def GET_def example_world_def example_clients_def)
  from m livez_always_200_no_calls [of failing_world "[]" example_world startup_order "'':8081''"
      "[(''/buckets'', Logger (Recovery (listBucketsHandler example_clients ''1.4.2''))),
         (''/parameters'', Logger (Recovery (listParametersHandler example_clients ''1.4.2''))),
         (''/parameters/:name'', Logger (Recovery (getParameterHandler example_clients ''1.4.2''))),
         (''/livez'', Logger (Recovery livenessHandler))]"]
  show ?thesis by blast
qed

section \<open>Any error of a list call is a 500 (C6)\<close>

text \<open>
  C6. Whenever \<open>ListBuckets\<close> (for \<open>/buckets\<close>) or \<open>DescribeParameters\<close> (for
  \<open>/parameters\<close>) returns an error, the handler answers 500 with an empty body: nothing
  of the error reaches the client.
\<close>

theorem list_handlers_error_is_500:
  "(s3_ListBuckets w (s3 cl) = Inl err \<longrightarrow>
      listBucketsHandler cl v w (new_Context ps) =
        ([EvListBuckets], Inr \<lparr>Params = ps, status = 500, body = None\<rparr>)) \<and>
   (ssm_DescribeParameters w (ssm cl) = Inl err' \<longrightarrow>
      listParametersHandler cl v w (new_Context ps) =
        ([EvDescribeParameters], Inr \<lparr>Params = ps, status = 500, body = None\<rparr>))"
  by (simp add: listBucketsHandler_def listParametersHandler_def Status_def new_Context_def
      StatusInternalServerError_def)

text \<open>C6 in the world where both list calls fail.\<close>

theorem list_handlers_error_is_500_witness:
  "s3_ListBuckets failing_world (s3 example_clients) = Inl (Error ''AccessDenied'') \<and>
   listBucketsHandler example_clients ''1.4.2'' failing_world (new_Context []) =
     ([EvListBuckets], Inr \<lparr>Params = [], status = 500, body = None\<rparr>) \<and>
   ssm_DescribeParameters failing_world (ssm example_clients) = Inl (Error ''ThrottlingException'') \<and>
   listParametersHandler example_clients ''1.4.2'' failing_world (new_Context []) =
     ([EvDescribeParameters], Inr \<lparr>Params = [], status = 500, body = None\<rparr>)"
proof -
  have h: "s3_ListBuckets failing_world (s3 example_clients) = Inl (Error ''AccessDenied'')"
    "ssm_DescribeParameters failing_world (ssm example_clients) = Inl (Error ''ThrottlingException'')"
    by (simp_all add: failing_world_def example_world_def)
  from h list_handlers_error_is_500 [of failing_world example_clients "Error ''AccessDenied''"
      "''1.4.2''" "[]" "Error ''ThrottlingException''"]
  show ?thesis by simp
qed

section \<open>Get-parameter returns the value (C7)\<close>

text \<open>
  C7, amended. When \<open>GetParameter\<close> succeeds and its output holds a parameter with a
  value (neither \<open>Parameter\<close> nor \<open>Value\<close> is nil), \<open>GET /parameters/:name\<close> answers
  200 with the envelope \<open>{version, data: v}\<close>, \<open>v\<close> being that value as a string:
  what the encoder writes for it, which for a value that is valid UTF-8 (all that the
  SDK's decoder hands over) is the value itself.
\<close>

theorem getParameter_returns_value:
  "ssm_GetParameter w (ssm cl) \<lparr>Input_Name = Some (Param (new_Context ps) ''name'')\<rparr> = Inr out \<Longrightarrow>
   Parameter out = Some p \<Longrightarrow> Parameter_Value p = Some val \<Longrightarrow>
   getParameterHandler cl v w (new_Context ps) =
     ([EvGetParameter (Some (Param (new_Context ps) ''name''))],
      Inr \<lparr>Params = ps, status = 200,
           body = Some (JObject [(''version'', JString (json_text v)),
             (''data'', JString (json_text val))])\<rparr>) \<and>
   (ValidString val \<longrightarrow> json_text val = val)"
  by (simp add: getParameterHandler_def JSON_def new_Context_def marshal_def StatusOK_def
      json_text_valid)

text \<open>The amended C7 at the spec's own example: \<open>foo\<close> has the value \<open>bar\<close>.\<close>

theorem getParameter_returns_value_witness:
  "ssm_GetParameter example_world (ssm example_clients) \<lparr>Input_Name = Some ''foo''\<rparr> =
     Inr \<lparr>Parameter = Some \<lparr>Parameter_Value = Some ''bar''\<rparr>\<rparr> \<and>
   getParameterHandler example_clients ''1.4.2'' example_world (new_Context [(''name'', ''foo'')]) =
     ([EvGetParameter (Some ''foo'')],
      Inr \<lparr>Params = [(''name'', ''foo'')], status = 200,
           body = Some (JObject [(''version'', JString ''1.4.2''), (''data'', JString ''bar'')])\<rparr>)"
proof -
  have n: "Param (new_Context [(''name'', ''foo'')]) ''name'' = ''foo''"
    by (simp add: Param_def new_Context_def)
  have h: "ssm_GetParameter example_world (ssm example_clients)
      \<lparr>Input_Name = Some (Param (new_Context [(''name'', ''foo'')]) ''name'')\<rparr> =
      Inr \<lparr>Parameter = Some \<lparr>Parameter_Value = Some ''bar''\<rparr>\<rparr>"
    by (simp add: n example_world_def)
  have p: "Parameter \<lparr>Parameter = Some \<lparr>Parameter_Value = Some ''bar''\<rparr>\<rparr> =
      Some \<lparr>Parameter_Value = Some ''bar''\<rparr>"
    and v: "Parameter_Value \<lparr>Parameter_Value = Some ''bar''\<rparr> = Some ''bar''"
    by simp_all
  from h getParameter_returns_value [OF h p v, of "''1.4.2''"] show ?thesis
    by (simp add: n utf8_eval)
qed

text \<open>
  C7 as stated fails: \<open>GetParameter\<close> succeeds with a parameter whose \<open>Value\<close> is
  nil, and the handler panics on \<open>*out.Parameter.Value\<close> instead of answering 200.
\<close>

theorem getParameter_nil_value_counterexample:
  "ssm_GetParameter nil_world (ssm example_clients) \<lparr>Input_Name = Some ''foo''\<rparr> =
     Inr \<lparr>Parameter = Some \<lparr>Parameter_Value = None\<rparr>\<rparr> \<and>
   getParameterHandler example_clients ''1.4.2'' nil_world (new_Context [(''name'', ''foo'')]) =
     ([EvGetParameter (Some ''foo'')], Inl NilDereference)"
  by (simp add: nil_world_def example_world_def getParameterHandler_def Param_def new_Context_def)

section \<open>A missing version stops the process first (C8)\<close>

text \<open>
  C8. When \<open>VERSION\<close> is missing, \<open>main\<close> ends in \<open>log.Fatal\<close> having done nothing
  but read the environment: no network activity, no listener. And in every run the events
  come in the one order: the environment is read, then the SDK configuration is loaded,
  then the identity check is made, then the listener is started.
\<close>

theorem missing_version_fatal_before_network:
  "(environ w ''VERSION'' = None \<longrightarrow>
      main w = ([EvEnvconfigProcess], LogFatal ''required key VERSION missing value'') \<and>
      (\<forall>e \<in> set (fst (main w)). \<not> network e)) \<and>
   prefix (fst (main w))
     [EvEnvconfigProcess, EvLoadDefaultConfig, EvGetCallerIdentity,
      EvLogPrintf ''Service listening on :8081'', EvRun '':8081'']"
proof
  show "environ w ''VERSION'' = None \<longrightarrow>
      main w = ([EvEnvconfigProcess], LogFatal ''required key VERSION missing value'') \<and>
      (\<forall>e \<in> set (fst (main w)). \<not> network e)"
    using main_no_version [of w] by simp
  show "prefix (fst (main w))
     [EvEnvconfigProcess, EvLoadDefaultConfig, EvGetCallerIdentity,
      EvLogPrintf ''Service listening on :8081'', EvRun '':8081'']"
    using main_trace_prefix [of w] by (simp add: startup_order_def)
qed

text \<open>C8 in the world without \<open>VERSION\<close>.\<close>

theorem missing_version_fatal_before_network_witness:
  "environ unversioned_world ''VERSION'' = None \<and>
   main unversioned_world =
     ([EvEnvconfigProcess], LogFatal ''required key VERSION missing value'') \<and>
   list_all (\<lambda>e. \<not> network e) (fst (main unversioned_world)) \<and>
   prefix (fst (main unversioned_world))
     [EvEnvconfigProcess, EvLoadDefaultConfig, EvGetCallerIdentity,
      EvLogPrintf ''Service listening on :8081'', EvRun '':8081'']"
proof -
  have h: "environ unversioned_world ''VERSION'' = None"
    by (simp add: unversioned_world_def)
  from h missing_version_fatal_before_network [of unversioned_world] show ?thesis
    by (simp add: list_all_iff)
qed

section \<open>An empty listing is serialised as null (C9)\<close>

text \<open>
  C9. When the remote call of a list endpoint succeeds with zero items, the handler
  answers 200 and the \<open>data\<close> field is JSON \<open>null\<close>, the encoding of the nil slice,
  which is not the empty array.
\<close>

theorem list_handlers_zero_items_null:
  "(s3_ListBuckets w (s3 cl) = Inr bo \<and> Buckets bo = [] \<longrightarrow>
      listBucketsHandler cl v w (new_Context ps) =
        ([EvListBuckets],
         Inr \<lparr>Params = ps, status = 200,
              body = Some (JObject [(''version'', JString (json_text v)), (''data'', JNull)])\<rparr>)) \<and>
   (ssm_DescribeParameters w (ssm cl) = Inr po \<and> Parameters po = [] \<longrightarrow>
      listParametersHandler cl v w (new_Context ps) =
        ([EvDescribeParameters],
         Inr \<lparr>Params = ps, status = 200,
              body = Some (JObject [(''version'', JString (json_text v)), (''data'', JNull)])\<rparr>)) \<and>
   marshal_any (AnyStrings None) \<noteq> JArray []"
  using listBucketsHandler_ok [of w cl bo "[]" v ps] listParametersHandler_ok [of w cl po "[]" v ps]
  by simp

text \<open>C9 in the world whose listings are empty.\<close>

theorem list_handlers_zero_items_null_witness:
  "s3_ListBuckets empty_world (s3 example_clients) = Inr \<lparr>Buckets = []\<rparr> \<and>
   listBucketsHandler example_clients ''1.4.2'' empty_world (new_Context []) =
     ([EvListBuckets],
      Inr \<lparr>Params = [], status = 200,
           body = Some (JObject [(''version'', JString ''1.4.2''), (''data'', JNull)])\<rparr>) \<and>
   ssm_DescribeParameters empty_world (ssm example_clients) = Inr \<lparr>Parameters = []\<rparr> \<and>
   listParametersHandler example_clients ''1.4.2'' empty_world (new_Context []) =
     ([EvDescribeParameters],
      Inr \<lparr>Params = [], status = 200,
           body = Some (JObject [(''version'', JString ''1.4.2''), (''data'', JNull)])\<rparr>)"
proof -
  have h: "s3_ListBuckets empty_world (s3 example_clients) = Inr \<lparr>Buckets = []\<rparr>"
    "ssm_DescribeParameters empty_world (ssm example_clients) = Inr \<lparr>Parameters = []\<rparr>"
    by (simp_all add: empty_world_def example_world_def)
  from h list_handlers_zero_items_null [of empty_world example_clients "\<lparr>Buckets = []\<rparr>"
      "''1.4.2''" "[]" "\<lparr>Parameters = []\<rparr>"]
  show ?thesis by (simp add: utf8_eval)
qed

section \<open>Nil fields make the handlers panic (C10)\<close>

text \<open>
  C10. On their success paths the handlers dereference without a nil check: after a
  successful remote call, \<open>/buckets\<close> panics exactly when some bucket's \<open>Name\<close> is nil,
  \<open>/parameters\<close> exactly when some parameter's \<open>Name\<close> is nil, and
  \<open>/parameters/:name\<close> exactly when \<open>Parameter\<close> or its \<open>Value\<close> is nil. For each of
  the three there is a successful remote response on which the handler panics and writes
  no response.
\<close>

theorem handlers_panic_on_nil_field:
  "(s3_ListBuckets w (s3 cl) = Inr bo \<longrightarrow>
      (listBucketsHandler cl v w c = ([EvListBuckets], Inl NilDereference)) =
      (None \<in> set (map Bucket_Name (Buckets bo)))) \<and>
   (ssm_DescribeParameters w (ssm cl) = Inr po \<longrightarrow>
      (listParametersHandler cl v w c = ([EvDescribeParameters], Inl NilDereference)) =
      (None \<in> set (map ParameterMetadata_Name (Parameters po)))) \<and>
   (ssm_GetParameter w (ssm cl) \<lparr>Input_Name = Some (Param c ''name'')\<rparr> = Inr go \<longrightarrow>
      (getParameterHandler cl v w c =
         ([EvGetParameter (Some (Param c ''name''))], Inl NilDereference)) =
      (Parameter go = None \<or> (\<exists>p. Parameter go = Some p \<and> Parameter_Value p = None))) \<and>
   (\<exists>w' bo'. s3_ListBuckets w' (s3 cl) = Inr bo' \<and>
      listBucketsHandler cl v w' c = ([EvListBuckets], Inl NilDereference)) \<and>
   (\<exists>w' po'. ssm_DescribeParameters w' (ssm cl) = Inr po' \<and>
      listParametersHandler cl v w' c = ([EvDescribeParameters], Inl NilDereference)) \<and>
   (\<exists>w' go'. ssm_GetParameter w' (ssm cl) \<lparr>Input_Name = Some (Param c ''name'')\<rparr> = Inr go' \<and>
      getParameterHandler cl v w' c =
        ([EvGetParameter (Some (Param c ''name''))], Inl NilDereference))"
proof (intro conjI)
  show "s3_ListBuckets w (s3 cl) = Inr bo \<longrightarrow>
      (listBucketsHandler cl v w c = ([EvListBuckets], Inl NilDereference)) =
      (None \<in> set (map Bucket_Name (Buckets bo)))"
    using listBucketsHandler_panics_iff by blast
  show "ssm_DescribeParameters w (ssm cl) = Inr po \<longrightarrow>
      (listParametersHandler cl v w c = ([EvDescribeParameters], Inl NilDereference)) =
      (None \<in> set (map ParameterMetadata_Name (Parameters po)))"
    using listParametersHandler_panics_iff by blast
  show "ssm_GetParameter w (ssm cl) \<lparr>Input_Name = Some (Param c ''name'')\<rparr> = Inr go \<longrightarrow>
      (getParameterHandler cl v w c =
         ([EvGetParameter (Some (Param c ''name''))], Inl NilDereference)) =
      (Parameter go = None \<or> (\<exists>p. Parameter go = Some p \<and> Parameter_Value p = None))"
    using getParameterHandler_panics_iff by blast
  have "s3_ListBuckets nil_world (s3 cl) =
        Inr \<lparr>Buckets = [\<lparr>Bucket_Name = Some ''a''\<rparr>, \<lparr>Bucket_Name = None\<rparr>]\<rparr> \<and>
      listBucketsHandler cl v nil_world c = ([EvListBuckets], Inl NilDereference)"
    using listBucketsHandler_nil [where w = nil_world and cl = cl and c = c and v = v]
    by (simp add: nil_world_replies)
  then show "\<exists>w' bo'. s3_ListBuckets w' (s3 cl) = Inr bo' \<and>
      listBucketsHandler cl v w' c = ([EvListBuckets], Inl NilDereference)" by blast
  have "ssm_DescribeParameters nil_world (ssm cl) =
        Inr \<lparr>Parameters = [\<lparr>ParameterMetadata_Name = None\<rparr>]\<rparr> \<and>
      listParametersHandler cl v nil_world c = ([EvDescribeParameters], Inl NilDereference)"
    using listParametersHandler_nil [where w = nil_world and cl = cl and c = c and v = v]
    by (simp add: nil_world_replies)
  then show "\<exists>w' po'. ssm_DescribeParameters w' (ssm cl) = Inr po' \<and>
      listParametersHandler cl v w' c = ([EvDescribeParameters], Inl NilDereference)" by blast
  have "ssm_GetParameter nil_world (ssm cl) \<lparr>Input_Name = Some (Param c ''name'')\<rparr> =
        Inr \<lparr>Parameter = Some \<lparr>Parameter_Value = None\<rparr>\<rparr> \<and>
      getParameterHandler cl v nil_world c =
        ([EvGetParameter (Some (Param c ''name''))], Inl NilDereference)"
    using getParameterHandler_nil [where w = nil_world and cl = cl and c = c and v = v]
    by (simp add: nil_world_replies)
  then show "\<exists>w' go'. ssm_GetParameter w' (ssm cl) \<lparr>Input_Name = Some (Param c ''name'')\<rparr> = Inr go' \<and>
      getParameterHandler cl v w' c =
        ([EvGetParameter (Some (Param c ''name''))], Inl NilDereference)" by blast
qed

text \<open>C10 on the replies that hold nil fields.\<close>

theorem handlers_panic_on_nil_field_witness:
  "s3_ListBuckets nil_world (s3 example_clients) =
     Inr \<lparr>Buckets = [\<lparr>Bucket_Name = Some ''a''\<rparr>, \<lparr>Bucket_Name = None\<rparr>]\<rparr> \<and>
   listBucketsHandler example_clients ''1.4.2'' nil_world (new_Context [(''name'', ''foo'')]) =
     ([EvListBuckets], Inl NilDereference) \<and>
   ssm_DescribeParameters nil_world (ssm example_clients) =
     Inr \<lparr>Parameters = [\<lparr>ParameterMetadata_Name = None\<rparr>]\<rparr> \<and>
   listParametersHandler example_clients ''1.4.2'' nil_world (new_Context [(''name'', ''foo'')]) =
     ([EvDescribeParameters], Inl NilDereference) \<and>
   ssm_GetParameter nil_world (ssm example_clients) \<lparr>Input_Name = Some ''foo''\<rparr> =
     Inr \<lparr>Parameter = Some \<lparr>Parameter_Value = None\<rparr>\<rparr> \<and>
   getParameterHandler example_clients ''1.4.2'' nil_world (new_Context [(''name'', ''foo'')]) =
     ([EvGetParameter (Some ''foo'')], Inl NilDereference)"
proof -
  have n: "Param (new_Context [(''name'', ''foo'')]) ''name'' = ''foo''"
    by (simp add: Param_def new_Context_def)
  from handlers_panic_on_nil_field
    [of nil_world example_clients
        "\<lparr>Buckets = [\<lparr>Bucket_Name = Some ''a''\<rparr>, \<lparr>Bucket_Name = None\<rparr>]\<rparr>"
        "''1.4.2''" "new_Context [(''name'', ''foo'')]"
        "\<lparr>Parameters = [\<lparr>ParameterMetadata_Name = None\<rparr>]\<rparr>"
        "\<lparr>Parameter = Some \<lparr>Parameter_Value = None\<rparr>\<rparr>"]
  show ?thesis by (simp add: n nil_world_replies)
qed

end
